theory Spec2Isabelle
  imports Complex_Main "HOL-Library.AList"
begin

section \<open>Values, errors and dictionaries\<close>

text \<open>
  The program is one Python module, \<^verbatim>\<open>src/main.py\<close>: a process-wide dictionary
  \<^verbatim>\<open>cases\<close> from case identifiers to case records, and one function per workflow
  step. Every function mutates \<^verbatim>\<open>cases\<close> in place and may raise; the model passes the
  store explicitly and returns, next to the store the call leaves behind, either the
  exception or the returned dictionary. The store is returned in the failing case too, so
  that a write made before a raise would be visible.

  Python's \<^verbatim>\<open>Any\<close> values are the JSON-like values below. A \<^verbatim>\<open>str\<close> is a \<open>string\<close>
  holding its UTF-8 bytes (only equality of strings is ever used). The floats of the
  module are the decimal literals 0.73, 0.9, 0.94, 0.8 and 0.9; they are modelled as
  rationals: for every finite double \<open>v\<close> the comparison of \<open>v\<close> with the double nearest
  to 0.8 (or 0.9) has the same outcome as the exact comparison, because no double lies
  strictly between the literal and its nearest double.

  A Python \<^verbatim>\<open>dict\<close> is an association list in insertion order: \<open>map_of\<close> reads a key,
  \<open>AList.update\<close> overwrites a present key in place and appends an absent one.
\<close>

type_synonym addr = nat

datatype pyval =
    PNone
  | PBool bool
  | PInt int
  | PFloat rat
  | PStr string
  | PList "pyval list"
  | PDict "(string \<times> pyval) list"
  | PRef addr

datatype error = KeyError string | TypeError

type_synonym 'v pydict = "(string \<times> 'v) list"

text \<open>
  The two exceptions the module can raise: \<^verbatim>\<open>KeyError\<close> with the missing key, and
  \<^verbatim>\<open>TypeError\<close> (subscripting \<^verbatim>\<open>None\<close>; its message is not modelled).
  \<^verbatim>\<open>d[k]\<close> on a missing key raises \<^verbatim>\<open>KeyError(k)\<close>.
\<close>

definition getitem :: "'v pydict \<Rightarrow> string \<Rightarrow> error + 'v" where
  "getitem d k = (case map_of d k of None \<Rightarrow> Inl (KeyError k) | Some v \<Rightarrow> Inr v)"

definition bindE :: "error + 'a \<Rightarrow> ('a \<Rightarrow> error + 'b) \<Rightarrow> error + 'b" where
  "bindE m f = (case m of Inl e \<Rightarrow> Inl e | Inr x \<Rightarrow> f x)"

section \<open>The case store\<close>

text \<open>
  An audit entry is \<^verbatim>\<open>{"ts": ..., "event": ..., "details": ...}\<close>. The case record has
  the six keys \<^verbatim>\<open>ingest_case\<close> writes (\<open>ocr_fields\<close> is the key \<^verbatim>\<open>"fields"\<close> of
  the \<^verbatim>\<open>ocr\<close> dictionary). The \<^verbatim>\<open>audit\<close> list is the one object of a case
  that a function hands out by reference (\<^verbatim>\<open>close_case_and_audit\<close> returns it), so it
  lives in a heap of list objects and the case record holds its address; \<open>PRef a\<close> is a
  reference to the list at address \<open>a\<close>. The other dictionaries of a case are reached
  only through the case and are kept by value.
\<close>

record audit_entry =
  ts :: string
  event :: string
  details :: pyval

record ocr_rec =
  ocr_fields :: "pyval pydict"
  confidence :: "rat pydict"

record case_rec =
  data :: "pyval pydict"
  ocr :: "ocr_rec option"
  status :: string
  audit :: addr
  overrides :: "pyval pydict"
  working :: "pyval pydict"

record store =
  cases :: "case_rec pydict"
  heap :: "addr \<Rightarrow> audit_entry list"
  next_addr :: addr

type_synonym result = "(error + pyval pydict) \<times> store"

definition init_store :: store where
  "init_store = \<lparr>cases = [], heap = (\<lambda>_. []), next_addr = 0\<rparr>"

definition DEMO_PAYLOAD :: "pyval pydict" where
  "DEMO_PAYLOAD =
    [(''citizen_name'', PStr ''John Doe''),
     (''citizen_dob'', PStr ''1998-04-12''),
     (''old_address'', PStr ''Altstrasse 5, 67655 Kaiserslautern''),
     (''new_address_raw'', PStr ''Musterstr 12a KL 12345''),
     (''move_in_date_raw'', PStr ''2025-10-01''),
     (''landlord_doc_path'', PStr ''/tmp/landlord_confirmation.pdf''),
     (''id_doc_path'', PStr ''/tmp/passport_scan.pdf'')]"

text \<open>
  \<^verbatim>\<open>_audit(case_id, event, details)\<close>: looks the case up (\<^verbatim>\<open>KeyError\<close> when it is
  missing, before the clock is read) and appends one entry to its audit list. \<open>now\<close> is
  what \<^verbatim>\<open>datetime.utcnow().isoformat()\<close> returns at this call.
\<close>

definition do_audit :: "string \<Rightarrow> string \<Rightarrow> string \<Rightarrow> pyval \<Rightarrow> store \<Rightarrow> (error + unit) \<times> store" where
  "do_audit case_id now ev det s =
    (case map_of (cases s) case_id of
       None \<Rightarrow> (Inl (KeyError case_id), s)
     | Some c \<Rightarrow>
         (Inr (),
          s\<lparr>heap := (heap s)(audit c := heap s (audit c) @ [\<lparr>ts = now, event = ev, details = det\<rparr>])\<rparr>))"

text \<open>A step that only audits and returns: \<^verbatim>\<open>_audit(...); return r\<close>.\<close>

definition audit_then_return :: "string \<Rightarrow> string \<Rightarrow> string \<Rightarrow> pyval \<Rightarrow> pyval pydict \<Rightarrow> store \<Rightarrow> result" where
  "audit_then_return case_id now ev det r s =
    (case do_audit case_id now ev det s of
       (Inl e, s') \<Rightarrow> (Inl e, s')
     | (Inr _, s') \<Rightarrow> (Inr r, s'))"

section \<open>Case identifiers\<close>

text \<open>\<^verbatim>\<open>f"CASE-{n:04d}"\<close>: the decimal digits of \<open>n\<close>, padded with zeros to width four.\<close>

fun digits :: "nat \<Rightarrow> string" where
  "digits n =
    (if n < 10 then [''0123456789'' ! n]
     else digits (n div 10) @ [''0123456789'' ! (n mod 10)])"

declare digits.simps [simp del]

definition fmt04d :: "nat \<Rightarrow> string" where
  "fmt04d n = replicate (4 - length (digits n)) CHR ''0'' @ digits n"

section \<open>The workflow steps\<close>

definition ingest_case :: "pyval pydict \<Rightarrow> string \<Rightarrow> store \<Rightarrow> result" where
  "ingest_case dat now s =
    (let case_id = ''CASE-'' @ fmt04d (length (cases s) + 1);
         a = next_addr s;
         c = \<lparr>data = dat, ocr = None, status = ''created'', audit = a,
              overrides = [], working = []\<rparr>;
         s1 = s\<lparr>cases := AList.update case_id c (cases s),
                heap := (heap s)(a := []),
                next_addr := Suc a\<rparr>
     in audit_then_return case_id now ''ingest_case'' (PStr ''Case created with citizen data.'')
          [(''case_id'', PStr case_id), (''message'', PStr ''Case created.'')] s1)"

text \<open>
  The \<^verbatim>\<open>extracted\<close> dictionary of \<^verbatim>\<open>run_ocr_extract\<close>: five reads of the intake data,
  in source order, each raising \<^verbatim>\<open>KeyError\<close> on a missing key.
\<close>

definition extracted_of :: "pyval pydict \<Rightarrow> error + pyval pydict" where
  "extracted_of dat =
    bindE (getitem dat ''citizen_name'') (\<lambda>name.
    bindE (getitem dat ''citizen_dob'') (\<lambda>dob.
    bindE (getitem dat ''old_address'') (\<lambda>old.
    bindE (getitem dat ''new_address_raw'') (\<lambda>new.
    bindE (getitem dat ''move_in_date_raw'') (\<lambda>move.
      Inr [(''citizen_name'', name),
           (''citizen_dob'', dob),
           (''old_address'', old),
           (''new_address'', new),
           (''move_in_date'', move),
           (''landlord_signature_found'', PBool True)])))))"

definition run_ocr_extract :: "string \<Rightarrow> string \<Rightarrow> store \<Rightarrow> result" where
  "run_ocr_extract case_id now s =
    (case map_of (cases s) case_id of
       None \<Rightarrow> (Inl (KeyError case_id), s)
     | Some c \<Rightarrow>
        (case extracted_of (data c) of
           Inl e \<Rightarrow> (Inl e, s)
         | Inr extracted \<Rightarrow>
            (let conf = [(''new_address'', 73 / 100), (''move_in_date'', 9 / 10 :: rat)];
                 c1 = c\<lparr>ocr := Some \<lparr>ocr_fields = extracted, confidence = conf\<rparr>\<rparr>
             in case bindE (getitem extracted ''new_address'') (\<lambda>na.
                     bindE (getitem extracted ''move_in_date'') (\<lambda>mi.
                       Inr [(''new_address'', na), (''move_in_date'', mi)])) of
                  Inl e \<Rightarrow> (Inl e, s\<lparr>cases := AList.update case_id c1 (cases s)\<rparr>)
                | Inr w \<Rightarrow>
                    audit_then_return case_id now ''run_ocr_extract''
                      (PDict [(''low_conf'', PList [PStr ''new_address''])])
                      [(''extracted_fields'', PDict extracted),
                       (''confidence'', PDict (map (\<lambda>(k, v). (k, PFloat v)) conf))]
                      (s\<lparr>cases := AList.update case_id (c1\<lparr>working := w\<rparr>) (cases s)\<rparr>))))"

text \<open>
  \<^verbatim>\<open>check_completeness\<close> subscripts \<^verbatim>\<open>cases[case_id]["ocr"]\<close>, which is \<^verbatim>\<open>None\<close> until
  extraction has run: Python raises \<^verbatim>\<open>TypeError\<close> there.
\<close>

definition check_completeness :: "string \<Rightarrow> string \<Rightarrow> store \<Rightarrow> result" where
  "check_completeness case_id now s =
    (case map_of (cases s) case_id of
       None \<Rightarrow> (Inl (KeyError case_id), s)
     | Some c \<Rightarrow>
        (case ocr c of
           None \<Rightarrow> (Inl TypeError, s)
         | Some oc \<Rightarrow>
            (let low_conf = [k. (k, v) \<leftarrow> confidence oc, v < 8 / 10];
                 st = (if low_conf \<noteq> [] then ''hitl_required'' else ''ok'')
             in audit_then_return case_id now ''check_completeness''
                  (PDict [(''status'', PStr st), (''low_conf'', PList (map PStr low_conf))])
                  [(''status'', PStr st), (''low_conf_fields'', PList (map PStr low_conf))] s)))"

definition resolve_hitl_update_address :: "string \<Rightarrow> string \<Rightarrow> string \<Rightarrow> store \<Rightarrow> result" where
  "resolve_hitl_update_address case_id corrected_address now s =
    (case map_of (cases s) case_id of
       None \<Rightarrow> (Inl (KeyError case_id), s)
     | Some c \<Rightarrow>
        (case getitem (working c) ''new_address'' of
           Inl e \<Rightarrow> (Inl e, s)
         | Inr old_addr \<Rightarrow>
            audit_then_return case_id now ''resolve_hitl_update_address''
              (PDict [(''old_address'', old_addr),
                      (''corrected_address'', PStr corrected_address),
                      (''source'', PStr ''human_officer'')])
              [(''message'', PStr ''Address override applied''),
               (''case_id'', PStr case_id),
               (''old_address'', old_addr),
               (''new_address'', PStr corrected_address),
               (''next_step_hint'',
                  PStr ''You can now continue with match_registry_identity, etc.'')]
              (s\<lparr>cases := AList.update case_id
                 (c\<lparr>working := AList.update ''new_address'' (PStr corrected_address) (working c),
                    overrides := AList.update ''new_address'' (PStr corrected_address) (overrides c)\<rparr>)
                 (cases s)\<rparr>)))"

definition match_registry_identity :: "string \<Rightarrow> string \<Rightarrow> store \<Rightarrow> result" where
  "match_registry_identity case_id now s =
    (let score = (94 / 100 :: rat);
         st = (if score > 9 / 10 then ''match'' else ''mismatch'')
     in audit_then_return case_id now ''match_registry_identity''
          (PDict [(''score'', PFloat score), (''status'', PStr st)])
          [(''status'', PStr st), (''score'', PFloat score),
           (''hitl_required'', PBool (st \<noteq> ''match''))] s)"

definition validate_landlord_confirmation :: "string \<Rightarrow> string \<Rightarrow> store \<Rightarrow> result" where
  "validate_landlord_confirmation case_id now s =
    (let valid = True;
         st = (if valid then ''valid'' else ''invalid'')
     in audit_then_return case_id now ''validate_landlord_confirmation''
          (PDict [(''status'', PStr st)])
          [(''status'', PStr st), (''hitl_required'', PBool (\<not> valid))] s)"

definition canonicalize_address :: "string \<Rightarrow> string \<Rightarrow> store \<Rightarrow> result" where
  "canonicalize_address case_id now s =
    (case map_of (cases s) case_id of
       None \<Rightarrow> (Inl (KeyError case_id), s)
     | Some c \<Rightarrow>
        (case getitem (working c) ''new_address'' of
           Inl e \<Rightarrow> (Inl e, s)
         | Inr input_addr \<Rightarrow>
            (let canonical =
                   [(''input'', input_addr),
                    (''street'', PStr (''Musterstra'' @ [CHR 0xC3, CHR 0x83, CHR 0xC5, CHR 0xB8] @ ''e'')),
                    (''house_number'', PStr ''12A''),
                    (''postal_code'', PStr ''12345''),
                    (''city'', PStr ''Kaiserslautern'')];
                 ambiguous = False;
                 st = (if \<not> ambiguous then ''ok'' else ''ambiguous'')
             in audit_then_return case_id now ''canonicalize_address''
                  (PDict [(''status'', PStr st)])
                  [(''status'', PStr st), (''canonical_address'', PDict canonical),
                   (''hitl_required'', PBool ambiguous)] s)))"

definition check_business_rules :: "string \<Rightarrow> string \<Rightarrow> store \<Rightarrow> result" where
  "check_business_rules case_id now s =
    (let violations = ([] :: string list);
         st = (if violations = [] then ''pass'' else ''fail'')
     in audit_then_return case_id now ''check_business_rules''
          (PDict [(''status'', PStr st)])
          [(''status'', PStr st), (''violations'', PList (map PStr violations)),
           (''hitl_required'', PBool (violations \<noteq> []))] s)"

definition update_registry :: "string \<Rightarrow> string \<Rightarrow> store \<Rightarrow> result" where
  "update_registry case_id now s =
    (let conflict = False;
         st = (if \<not> conflict then ''updated'' else ''conflict'')
     in audit_then_return case_id now ''update_registry''
          (PDict [(''status'', PStr st)])
          [(''status'', PStr st), (''hitl_required'', PBool conflict)] s)"

definition generate_certificate :: "string \<Rightarrow> string \<Rightarrow> store \<Rightarrow> result" where
  "generate_certificate case_id now s =
    (let path = ''/tmp/'' @ case_id @ ''_meldebescheinigung.pdf''
     in audit_then_return case_id now ''generate_certificate''
          (PDict [(''path'', PStr path)])
          [(''status'', PStr ''generated''), (''certificate_path'', PStr path)] s)"

definition notify_citizen :: "string \<Rightarrow> string \<Rightarrow> store \<Rightarrow> result" where
  "notify_citizen case_id now s =
    audit_then_return case_id now ''notify_citizen''
      (PDict [(''sent_to'', PStr ''citizen@example.com'')])
      [(''status'', PStr ''sent''), (''email'', PStr ''citizen@example.com'')] s"

text \<open>
  \<^verbatim>\<open>close_case_and_audit\<close> reads the reference to the audit list first, appends through
  \<^verbatim>\<open>_audit\<close>, and returns the reference it read.
\<close>

definition close_case_and_audit :: "string \<Rightarrow> string \<Rightarrow> store \<Rightarrow> result" where
  "close_case_and_audit case_id now s =
    (case map_of (cases s) case_id of
       None \<Rightarrow> (Inl (KeyError case_id), s)
     | Some c \<Rightarrow>
        audit_then_return case_id now ''close_case_and_audit'' (PStr ''Case closed.'')
          [(''status'', PStr ''closed''), (''audit_log'', PRef (audit c))] s)"

section \<open>Reading a store\<close>

text \<open>The identifier the next \<^verbatim>\<open>ingest_case\<close> call will use.\<close>

definition next_case_id :: "store \<Rightarrow> string" where
  "next_case_id s = ''CASE-'' @ fmt04d (length (cases s) + 1)"

text \<open>The audit list of a case, as a reader of the store sees it.\<close>

definition audit_of :: "store \<Rightarrow> string \<Rightarrow> audit_entry list" where
  "audit_of s case_id = (case map_of (cases s) case_id of None \<Rightarrow> [] | Some c \<Rightarrow> heap s (audit c))"

text \<open>What a caller reads from a returned value: a reference is followed into the heap.\<close>

definition deref :: "store \<Rightarrow> pyval \<Rightarrow> audit_entry list" where
  "deref s v = (case v of PRef a \<Rightarrow> heap s a | _ \<Rightarrow> [])"

section \<open>The demo scenario\<close>

text \<open>
  The stores the module goes through on its demo payload: one case ingested into the
  empty store, then extraction, then the officer's correction of the address, then a
  second extraction. The corrected address is the string
  \<^verbatim>\<open>Musterstrasse 12a, 12345 Kaiserslautern\<close> written with a sharp s, whose UTF-8
  encoding is the two bytes C3 9F.
\<close>

definition corrected_demo :: string where
  "corrected_demo = ''Musterstra'' @ [CHR 0xC3, CHR 0x9F] @ ''e 12a, 12345 Kaiserslautern''"

definition demo_created :: store where
  "demo_created = snd (ingest_case DEMO_PAYLOAD ''2025-10-01T09:00:00'' init_store)"

definition demo_extracted :: store where
  "demo_extracted = snd (run_ocr_extract ''CASE-0001'' ''2025-10-01T09:00:01'' demo_created)"

definition demo_overridden :: store where
  "demo_overridden =
     snd (resolve_hitl_update_address ''CASE-0001'' corrected_demo ''2025-10-01T09:00:02'' demo_extracted)"

definition demo_reextracted :: store where
  "demo_reextracted = snd (run_ocr_extract ''CASE-0001'' ''2025-10-01T09:00:03'' demo_overridden)"

definition demo_case0 :: case_rec where
  "demo_case0 = \<lparr>data = DEMO_PAYLOAD, ocr = None, status = ''created'', audit = 0,
                  overrides = [], working = []\<rparr>"

definition demo_ocr :: ocr_rec where
  "demo_ocr = \<lparr>ocr_fields =
       [(''citizen_name'', PStr ''John Doe''),
        (''citizen_dob'', PStr ''1998-04-12''),
        (''old_address'', PStr ''Altstrasse 5, 67655 Kaiserslautern''),
        (''new_address'', PStr ''Musterstr 12a KL 12345''),
        (''move_in_date'', PStr ''2025-10-01''),
        (''landlord_signature_found'', PBool True)],
     confidence = [(''new_address'', 73 / 100), (''move_in_date'', 9 / 10)]\<rparr>"

definition demo_case1 :: case_rec where
  "demo_case1 = demo_case0\<lparr>ocr := Some demo_ocr,
     working := [(''new_address'', PStr ''Musterstr 12a KL 12345''), (''move_in_date'', PStr ''2025-10-01'')]\<rparr>"

text \<open>
  The overlay rule of the specification, read on the fields that \<^verbatim>\<open>working\<close> holds:
  the working value of a field is its override when there is one, and the extracted
  value otherwise.
\<close>

definition overlay_holds :: "case_rec \<Rightarrow> bool" where
  "overlay_holds c =
    (\<forall>f \<in> set (map fst (working c)).
       map_of (working c) f =
         (case map_of (overrides c) f of
            Some v \<Rightarrow> Some v
          | None \<Rightarrow> (case ocr c of None \<Rightarrow> None | Some oc \<Rightarrow> map_of (ocr_fields oc) f)))"

section \<open>What each step does to the store\<close>

lemma do_audit_None: "map_of (cases s) cid = None \<Longrightarrow> do_audit cid now ev det s = (Inl (KeyError cid), s)"
  by (simp add: do_audit_def)

lemma do_audit_Some: "map_of (cases s) cid = Some c \<Longrightarrow> do_audit cid now ev det s =
   (Inr (), s\<lparr>heap := (heap s)(audit c := heap s (audit c) @ [\<lparr>ts = now, event = ev, details = det\<rparr>])\<rparr>)"
  by (simp add: do_audit_def)

lemma audit_then_return_None:
  "map_of (cases s) cid = None \<Longrightarrow> audit_then_return cid now ev det r s = (Inl (KeyError cid), s)"
  by (simp add: audit_then_return_def do_audit_None)

lemma audit_then_return_Some:
  "map_of (cases s) cid = Some c \<Longrightarrow> audit_then_return cid now ev det r s =
     (Inr r, s\<lparr>heap := (heap s)(audit c := heap s (audit c) @ [\<lparr>ts = now, event = ev, details = det\<rparr>])\<rparr>)"
  by (simp add: audit_then_return_def do_audit_Some)

lemma fmt04d_1: "fmt04d (Suc 0) = ''0001''"
  by (simp add: fmt04d_def digits.simps numeral_3_eq_3)

lemma next_case_id_init: "next_case_id init_store = ''CASE-0001''"
  by (simp add: next_case_id_def init_store_def fmt04d_1)

lemma ingest_case_eq:
  "ingest_case dat now s =
    (Inr [(''case_id'', PStr (next_case_id s)), (''message'', PStr ''Case created.'')],
     s\<lparr>cases := AList.update (next_case_id s)
          \<lparr>data = dat, ocr = None, status = ''created'', audit = next_addr s, overrides = [], working = []\<rparr> (cases s),
       heap := (heap s)(next_addr s := [\<lparr>ts = now, event = ''ingest_case'', details = PStr ''Case created with citizen data.''\<rparr>]),
       next_addr := Suc (next_addr s)\<rparr>)"
  by (simp add: ingest_case_def next_case_id_def Let_def audit_then_return_Some update_conv')

lemma extracted_of_eq:
  assumes "map_of dat ''citizen_name'' = Some n" "map_of dat ''citizen_dob'' = Some d"
    "map_of dat ''old_address'' = Some ol" "map_of dat ''new_address_raw'' = Some nw"
    "map_of dat ''move_in_date_raw'' = Some mv"
  shows "extracted_of dat = Inr [(''citizen_name'', n), (''citizen_dob'', d), (''old_address'', ol),
           (''new_address'', nw), (''move_in_date'', mv), (''landlord_signature_found'', PBool True)]"
  using assms by (simp add: extracted_of_def bindE_def getitem_def)

lemma run_ocr_extract_eq:
  assumes "map_of (cases s) cid = Some c"
    and "map_of (data c) ''citizen_name'' = Some n" "map_of (data c) ''citizen_dob'' = Some d"
    "map_of (data c) ''old_address'' = Some ol" "map_of (data c) ''new_address_raw'' = Some nw"
    "map_of (data c) ''move_in_date_raw'' = Some mv"
  shows "run_ocr_extract cid now s =
    (Inr [(''extracted_fields'', PDict [(''citizen_name'', n), (''citizen_dob'', d), (''old_address'', ol),
           (''new_address'', nw), (''move_in_date'', mv), (''landlord_signature_found'', PBool True)]),
          (''confidence'', PDict [(''new_address'', PFloat (73 / 100)), (''move_in_date'', PFloat (9 / 10))])],
     s\<lparr>cases := AList.update cid
          (c\<lparr>ocr := Some \<lparr>ocr_fields = [(''citizen_name'', n), (''citizen_dob'', d), (''old_address'', ol),
                 (''new_address'', nw), (''move_in_date'', mv), (''landlord_signature_found'', PBool True)],
               confidence = [(''new_address'', 73 / 100), (''move_in_date'', 9 / 10)]\<rparr>,
             working := [(''new_address'', nw), (''move_in_date'', mv)]\<rparr>) (cases s),
       heap := (heap s)(audit c := heap s (audit c) @
          [\<lparr>ts = now, event = ''run_ocr_extract'', details = PDict [(''low_conf'', PList [PStr ''new_address''])]\<rparr>])\<rparr>)"
proof -
  let ?c' = "c\<lparr>ocr := Some \<lparr>ocr_fields = [(''citizen_name'', n), (''citizen_dob'', d), (''old_address'', ol),
                 (''new_address'', nw), (''move_in_date'', mv), (''landlord_signature_found'', PBool True)],
               confidence = [(''new_address'', 73 / 100), (''move_in_date'', 9 / 10)]\<rparr>,
             working := [(''new_address'', nw), (''move_in_date'', mv)]\<rparr>"
  have look: "map_of (cases (s\<lparr>cases := AList.update cid ?c' (cases s)\<rparr>)) cid = Some ?c'"
    by (simp add: update_conv')
  show ?thesis
    using assms(1)
    by (simp add: run_ocr_extract_def extracted_of_eq [OF assms(2-6)] Let_def bindE_def getitem_def
        audit_then_return_Some [OF look])
qed

lemma resolve_eq:
  assumes "map_of (cases s) cid = Some c" and "map_of (working c) ''new_address'' = Some old"
  shows "resolve_hitl_update_address cid v now s =
    (Inr [(''message'', PStr ''Address override applied''), (''case_id'', PStr cid),
          (''old_address'', old), (''new_address'', PStr v),
          (''next_step_hint'', PStr ''You can now continue with match_registry_identity, etc.'')],
     s\<lparr>cases := AList.update cid
          (c\<lparr>working := AList.update ''new_address'' (PStr v) (working c),
             overrides := AList.update ''new_address'' (PStr v) (overrides c)\<rparr>) (cases s),
       heap := (heap s)(audit c := heap s (audit c) @
          [\<lparr>ts = now, event = ''resolve_hitl_update_address'',
            details = PDict [(''old_address'', old), (''corrected_address'', PStr v),
                             (''source'', PStr ''human_officer'')]\<rparr>])\<rparr>)"
proof -
  let ?c' = "c\<lparr>working := AList.update ''new_address'' (PStr v) (working c),
             overrides := AList.update ''new_address'' (PStr v) (overrides c)\<rparr>"
  have look: "map_of (cases (s\<lparr>cases := AList.update cid ?c' (cases s)\<rparr>)) cid = Some ?c'"
    by (simp add: update_conv')
  show ?thesis
    using assms
    by (simp add: resolve_hitl_update_address_def getitem_def audit_then_return_Some [OF look])
qed

lemma check_completeness_eq:
  assumes "map_of (cases s) cid = Some c" and "ocr c = Some oc"
  shows "check_completeness cid now s =
    (Inr [(''status'', PStr (if [k. (k, v) \<leftarrow> confidence oc, v < 8 / 10] \<noteq> [] then ''hitl_required'' else ''ok'')),
          (''low_conf_fields'', PList (map PStr [k. (k, v) \<leftarrow> confidence oc, v < 8 / 10]))],
     s\<lparr>heap := (heap s)(audit c := heap s (audit c) @
          [\<lparr>ts = now, event = ''check_completeness'',
            details = PDict [(''status'', PStr (if [k. (k, v) \<leftarrow> confidence oc, v < 8 / 10] \<noteq> [] then ''hitl_required'' else ''ok'')),
                             (''low_conf'', PList (map PStr [k. (k, v) \<leftarrow> confidence oc, v < 8 / 10]))]\<rparr>])\<rparr>)"
  using assms
  by (simp add: check_completeness_def Let_def audit_then_return_Some [OF assms(1)])

lemma close_eq:
  assumes "map_of (cases s) cid = Some c"
  shows "close_case_and_audit cid now s =
    (Inr [(''status'', PStr ''closed''), (''audit_log'', PRef (audit c))],
     s\<lparr>heap := (heap s)(audit c := heap s (audit c) @
          [\<lparr>ts = now, event = ''close_case_and_audit'', details = PStr ''Case closed.''\<rparr>])\<rparr>)"
  using assms by (simp add: close_case_and_audit_def audit_then_return_Some [OF assms])

lemma init_store_sel:
  "cases init_store = []" "next_addr init_store = 0" "heap init_store = (\<lambda>_. [])"
  by (simp_all add: init_store_def)

lemma demo_created_cases: "cases demo_created = [(''CASE-0001'', demo_case0)]"
  by (simp add: demo_created_def ingest_case_eq next_case_id_init demo_case0_def init_store_sel)

lemma demo_created_audit: "audit_of demo_created ''CASE-0001'' =
    [\<lparr>ts = ''2025-10-01T09:00:00'', event = ''ingest_case'', details = PStr ''Case created with citizen data.''\<rparr>]"
  by (simp add: audit_of_def demo_created_def ingest_case_eq next_case_id_init update_conv' init_store_sel)

lemma demo_created_lookup: "map_of (cases demo_created) ''CASE-0001'' = Some demo_case0"
  by (simp add: demo_created_cases)

lemma demo_extracted_eq: "run_ocr_extract ''CASE-0001'' ''2025-10-01T09:00:01'' demo_created =
    (Inr [(''extracted_fields'', PDict (ocr_fields demo_ocr)),
          (''confidence'', PDict [(''new_address'', PFloat (73 / 100)), (''move_in_date'', PFloat (9 / 10))])],
     demo_created\<lparr>cases := [(''CASE-0001'', demo_case1)],
       heap := (heap demo_created)(0 := heap demo_created 0 @
          [\<lparr>ts = ''2025-10-01T09:00:01'', event = ''run_ocr_extract'', details = PDict [(''low_conf'', PList [PStr ''new_address''])]\<rparr>])\<rparr>)"
proof -
  have d: "data demo_case0 = DEMO_PAYLOAD" "audit demo_case0 = 0"
    by (simp_all add: demo_case0_def)
  show ?thesis
    by (subst run_ocr_extract_eq [OF demo_created_lookup])
      (simp_all add: d DEMO_PAYLOAD_def demo_created_cases demo_case1_def demo_ocr_def)
qed

lemma demo_extracted_lookup: "map_of (cases demo_extracted) ''CASE-0001'' = Some demo_case1"
  by (simp add: demo_extracted_def demo_extracted_eq)

section \<open>Unknown case identifiers\<close>

text \<open>
  Claim C4. Each of the eleven functions that take a case identifier, called with an
  identifier that is not a key of the store, raises \<^verbatim>\<open>KeyError\<close> on that identifier
  and leaves the whole store (every case record and every audit list) as it was: the
  lookup is the first thing each of them does to the store.
\<close>

theorem unknown_case_aborts:
  assumes "map_of (cases s) cid = None"
  shows "run_ocr_extract cid now s = (Inl (KeyError cid), s)
    \<and> check_completeness cid now s = (Inl (KeyError cid), s)
    \<and> resolve_hitl_update_address cid v now s = (Inl (KeyError cid), s)
    \<and> match_registry_identity cid now s = (Inl (KeyError cid), s)
    \<and> validate_landlord_confirmation cid now s = (Inl (KeyError cid), s)
    \<and> canonicalize_address cid now s = (Inl (KeyError cid), s)
    \<and> check_business_rules cid now s = (Inl (KeyError cid), s)
    \<and> update_registry cid now s = (Inl (KeyError cid), s)
    \<and> generate_certificate cid now s = (Inl (KeyError cid), s)
    \<and> notify_citizen cid now s = (Inl (KeyError cid), s)
    \<and> close_case_and_audit cid now s = (Inl (KeyError cid), s)"
  using assms
  by (simp add: run_ocr_extract_def check_completeness_def resolve_hitl_update_address_def
      match_registry_identity_def validate_landlord_confirmation_def canonicalize_address_def
      check_business_rules_def update_registry_def generate_certificate_def notify_citizen_def
      close_case_and_audit_def audit_then_return_None Let_def)

theorem unknown_case_aborts_witness:
  "map_of (cases demo_created) ''CASE-0002'' = None
    \<and> run_ocr_extract ''CASE-0002'' ''t'' demo_created = (Inl (KeyError ''CASE-0002''), demo_created)
    \<and> check_completeness ''CASE-0002'' ''t'' demo_created = (Inl (KeyError ''CASE-0002''), demo_created)
    \<and> resolve_hitl_update_address ''CASE-0002'' ''x'' ''t'' demo_created = (Inl (KeyError ''CASE-0002''), demo_created)
    \<and> match_registry_identity ''CASE-0002'' ''t'' demo_created = (Inl (KeyError ''CASE-0002''), demo_created)
    \<and> validate_landlord_confirmation ''CASE-0002'' ''t'' demo_created = (Inl (KeyError ''CASE-0002''), demo_created)
    \<and> canonicalize_address ''CASE-0002'' ''t'' demo_created = (Inl (KeyError ''CASE-0002''), demo_created)
    \<and> check_business_rules ''CASE-0002'' ''t'' demo_created = (Inl (KeyError ''CASE-0002''), demo_created)
    \<and> update_registry ''CASE-0002'' ''t'' demo_created = (Inl (KeyError ''CASE-0002''), demo_created)
    \<and> generate_certificate ''CASE-0002'' ''t'' demo_created = (Inl (KeyError ''CASE-0002''), demo_created)
    \<and> notify_citizen ''CASE-0002'' ''t'' demo_created = (Inl (KeyError ''CASE-0002''), demo_created)
    \<and> close_case_and_audit ''CASE-0002'' ''t'' demo_created = (Inl (KeyError ''CASE-0002''), demo_created)"
proof -
  have h: "map_of (cases demo_created) ''CASE-0002'' = None"
    by (simp add: demo_created_cases)
  show ?thesis
    using h unknown_case_aborts [OF h, where now = "''t''" and v = "''x''"] by blast
qed

section \<open>Creating a case\<close>

text \<open>
  Claim C8. Every \<^verbatim>\<open>ingest_case\<close> call returns normally, with the identifier
  \<^verbatim>\<open>CASE-%04d\<close> of the number of stored cases plus one; under that identifier the store
  then holds a record with the given intake data, no extraction, status \<^verbatim>\<open>created\<close>,
  empty overrides and empty working values, and the audit list of that case is exactly
  the one \<^verbatim>\<open>ingest_case\<close> entry.
\<close>

theorem ingest_case_creates_record:
  "fst (ingest_case dat now s) =
      Inr [(''case_id'', PStr (next_case_id s)), (''message'', PStr ''Case created.'')]
   \<and> map_of (cases (snd (ingest_case dat now s))) (next_case_id s) =
      Some \<lparr>data = dat, ocr = None, status = ''created'', audit = next_addr s,
            overrides = [], working = []\<rparr>
   \<and> audit_of (snd (ingest_case dat now s)) (next_case_id s) =
      [\<lparr>ts = now, event = ''ingest_case'', details = PStr ''Case created with citizen data.''\<rparr>]"
  by (simp add: ingest_case_eq audit_of_def update_conv')

text \<open>The first case of the demo scenario.\<close>

theorem ingest_case_creates_record_witness:
  "fst (ingest_case DEMO_PAYLOAD ''2025-10-01T09:00:00'' init_store) =
      Inr [(''case_id'', PStr ''CASE-0001''), (''message'', PStr ''Case created.'')]
   \<and> map_of (cases demo_created) ''CASE-0001'' =
      Some \<lparr>data = DEMO_PAYLOAD, ocr = None, status = ''created'', audit = 0,
            overrides = [], working = []\<rparr>
   \<and> audit_of demo_created ''CASE-0001'' =
      [\<lparr>ts = ''2025-10-01T09:00:00'', event = ''ingest_case'',
        details = PStr ''Case created with citizen data.''\<rparr>]"
  using ingest_case_creates_record [of DEMO_PAYLOAD "''2025-10-01T09:00:00''" init_store]
  by (simp add: next_case_id_init init_store_sel demo_created_def)

section \<open>Overriding before extraction\<close>

text \<open>
  Claim C10. On an existing case whose working values have no \<^verbatim>\<open>new_address\<close> key (as
  after \<^verbatim>\<open>ingest_case\<close>, before any extraction), \<^verbatim>\<open>resolve_hitl_update_address\<close> raises
  \<^verbatim>\<open>KeyError\<close> on \<^verbatim>\<open>new_address\<close> at the read of the old value, and the store it
  leaves is the store it was given: no working value, override or audit entry is written.
\<close>

theorem resolve_before_extraction_fails:
  assumes "map_of (cases s) cid = Some c"
    and "map_of (working c) ''new_address'' = None"
  shows "resolve_hitl_update_address cid v now s = (Inl (KeyError ''new_address''), s)"
  using assms by (simp add: resolve_hitl_update_address_def getitem_def)

theorem resolve_before_extraction_fails_witness:
  "map_of (cases demo_created) ''CASE-0001'' = Some demo_case0
   \<and> map_of (working demo_case0) ''new_address'' = None
   \<and> resolve_hitl_update_address ''CASE-0001'' corrected_demo ''2025-10-01T09:00:01'' demo_created =
        (Inl (KeyError ''new_address''), demo_created)"
proof -
  have w: "map_of (working demo_case0) ''new_address'' = None"
    by (simp add: demo_case0_def)
  show ?thesis
    using demo_created_lookup w resolve_before_extraction_fails [OF demo_created_lookup w]
    by blast
qed

section \<open>Closing a case\<close>

text \<open>
  Claim C9. On an existing case, \<^verbatim>\<open>close_case_and_audit\<close> returns a reference to the
  audit list of the case, read before the append. What the caller finds behind that
  reference once the call has returned is the case's audit list in the new store: the
  entries it had, followed by the \<^verbatim>\<open>close_case_and_audit\<close> entry of this very call,
  which is therefore its last entry.
\<close>

theorem close_returns_live_audit_list:
  assumes "map_of (cases s) cid = Some c"
  shows "\<exists>s'. close_case_and_audit cid now s =
            (Inr [(''status'', PStr ''closed''), (''audit_log'', PRef (audit c))], s')
     \<and> deref s' (PRef (audit c)) = audit_of s' cid
     \<and> audit_of s' cid = audit_of s cid @
          [\<lparr>ts = now, event = ''close_case_and_audit'', details = PStr ''Case closed.''\<rparr>]
     \<and> last (deref s' (PRef (audit c))) =
          \<lparr>ts = now, event = ''close_case_and_audit'', details = PStr ''Case closed.''\<rparr>"
  using assms by (simp add: close_eq [OF assms] deref_def audit_of_def)

theorem close_returns_live_audit_list_witness:
  "map_of (cases demo_created) ''CASE-0001'' = Some demo_case0
   \<and> (\<exists>s'. close_case_and_audit ''CASE-0001'' ''2025-10-01T09:00:09'' demo_created =
            (Inr [(''status'', PStr ''closed''), (''audit_log'', PRef (audit demo_case0))], s')
     \<and> deref s' (PRef (audit demo_case0)) = audit_of s' ''CASE-0001''
     \<and> audit_of s' ''CASE-0001'' = audit_of demo_created ''CASE-0001'' @
          [\<lparr>ts = ''2025-10-01T09:00:09'', event = ''close_case_and_audit'', details = PStr ''Case closed.''\<rparr>]
     \<and> last (deref s' (PRef (audit demo_case0))) =
          \<lparr>ts = ''2025-10-01T09:00:09'', event = ''close_case_and_audit'', details = PStr ''Case closed.''\<rparr>)"
  using demo_created_lookup close_returns_live_audit_list [OF demo_created_lookup]
  by blast

text \<open>
  Claim C2 says that closing marks the stored record: its status would be \<^verbatim>\<open>closed\<close>
  afterwards. No function of the module writes the \<^verbatim>\<open>status\<close> key after
  \<^verbatim>\<open>ingest_case\<close>; closing the first demo case succeeds and the stored status is still
  \<^verbatim>\<open>created\<close>.
\<close>

theorem close_leaves_status_counterexample:
  "fst (close_case_and_audit ''CASE-0001'' ''2025-10-01T09:00:09'' demo_created) =
      Inr [(''status'', PStr ''closed''), (''audit_log'', PRef 0)]
   \<and> map_option status
        (map_of (cases (snd (close_case_and_audit ''CASE-0001'' ''2025-10-01T09:00:09'' demo_created)))
           ''CASE-0001'') = Some ''created''
   \<and> ''created'' \<noteq> ''closed''"
  by (simp add: close_eq [OF demo_created_lookup] demo_created_lookup) (simp add: demo_case0_def)

text \<open>
  Claim C2, amended. On an existing case, \<^verbatim>\<open>close_case_and_audit\<close> returns normally
  with \<^verbatim>\<open>status\<close> equal to \<^verbatim>\<open>closed\<close> in its result and appends one
  \<^verbatim>\<open>close_case_and_audit\<close> entry to the audit list of the case; every stored case
  record, its status field included, is left as it was.
\<close>

theorem close_reports_closed_keeps_record:
  assumes "map_of (cases s) cid = Some c"
  shows "\<exists>r s'. close_case_and_audit cid now s = (Inr r, s')
     \<and> map_of r ''status'' = Some (PStr ''closed'')
     \<and> cases s' = cases s
     \<and> audit_of s' cid = audit_of s cid @
          [\<lparr>ts = now, event = ''close_case_and_audit'', details = PStr ''Case closed.''\<rparr>]"
  using assms by (simp add: close_eq [OF assms] audit_of_def)

theorem close_reports_closed_keeps_record_witness:
  "map_of (cases demo_created) ''CASE-0001'' = Some demo_case0
   \<and> (\<exists>r s'. close_case_and_audit ''CASE-0001'' ''2025-10-01T09:00:09'' demo_created = (Inr r, s')
     \<and> map_of r ''status'' = Some (PStr ''closed'')
     \<and> cases s' = cases demo_created
     \<and> audit_of s' ''CASE-0001'' = audit_of demo_created ''CASE-0001'' @
          [\<lparr>ts = ''2025-10-01T09:00:09'', event = ''close_case_and_audit'', details = PStr ''Case closed.''\<rparr>])"
  using demo_created_lookup close_reports_closed_keeps_record [OF demo_created_lookup]
  by blast

section \<open>Completeness check\<close>

lemma low_conf_filter:
  "[k. (k, v) \<leftarrow> xs, v < (t::rat)] = map fst (filter (\<lambda>(k, v). v < t) xs)"
  by (induction xs) auto

lemma demo_case1_ocr: "ocr demo_case1 = Some demo_ocr"
  by (simp add: demo_case1_def)

text \<open>
  Claim C5. On a case whose extraction is present, \<^verbatim>\<open>check_completeness\<close> returns
  normally; its status is \<^verbatim>\<open>hitl_required\<close> exactly when some confidence score of the
  extraction is below 0.8 and \<^verbatim>\<open>ok\<close> exactly when none is, and its
  \<^verbatim>\<open>low_conf_fields\<close> are the fields whose score is below 0.8, in the order of the
  confidence dictionary.
\<close>

theorem check_completeness_threshold:
  assumes "map_of (cases s) cid = Some c" and "ocr c = Some oc"
  shows "\<exists>st low s'.
      check_completeness cid now s =
        (Inr [(''status'', PStr st), (''low_conf_fields'', PList (map PStr low))], s')
    \<and> (st = ''hitl_required'' \<longleftrightarrow> (\<exists>k v. (k, v) \<in> set (confidence oc) \<and> v < 8 / 10))
    \<and> (st = ''ok'' \<longleftrightarrow> \<not> (\<exists>k v. (k, v) \<in> set (confidence oc) \<and> v < 8 / 10))
    \<and> low = map fst (filter (\<lambda>(k, v). v < 8 / 10) (confidence oc))"
proof -
  let ?low = "map fst (filter (\<lambda>(k, v). v < 8 / 10) (confidence oc))"
  let ?st = "if ?low \<noteq> [] then ''hitl_required'' else ''ok''"
  have ne: "?low \<noteq> [] \<longleftrightarrow> (\<exists>k v. (k, v) \<in> set (confidence oc) \<and> v < 8 / 10)"
    by (auto simp: filter_empty_conv)
  have run: "check_completeness cid now s =
      (Inr [(''status'', PStr ?st), (''low_conf_fields'', PList (map PStr ?low))],
       snd (check_completeness cid now s))"
    by (simp only: check_completeness_eq [OF assms] low_conf_filter snd_conv)
  have a: "?st = ''hitl_required'' \<longleftrightarrow> (\<exists>k v. (k, v) \<in> set (confidence oc) \<and> v < 8 / 10)"
    using ne by simp
  have b: "?st = ''ok'' \<longleftrightarrow> \<not> (\<exists>k v. (k, v) \<in> set (confidence oc) \<and> v < 8 / 10)"
    using ne by simp
  show ?thesis
  proof (intro exI conjI)
    show "check_completeness cid now s =
      (Inr [(''status'', PStr ?st), (''low_conf_fields'', PList (map PStr ?low))],
       snd (check_completeness cid now s))"
      by (rule run)
    show "?st = ''hitl_required'' \<longleftrightarrow> (\<exists>k v. (k, v) \<in> set (confidence oc) \<and> v < 8 / 10)"
      by (rule a)
    show "?st = ''ok'' \<longleftrightarrow> \<not> (\<exists>k v. (k, v) \<in> set (confidence oc) \<and> v < 8 / 10)"
      by (rule b)
    show "?low = map fst (filter (\<lambda>(k, v). v < 8 / 10) (confidence oc))"
      by (rule refl)
  qed
qed

text \<open>After the demo extraction the low-confidence fields are \<^verbatim>\<open>new_address\<close> alone.\<close>

theorem check_completeness_threshold_witness:
  "map_of (cases demo_extracted) ''CASE-0001'' = Some demo_case1 \<and> ocr demo_case1 = Some demo_ocr
   \<and> (\<exists>st low s'.
      check_completeness ''CASE-0001'' ''2025-10-01T09:00:02'' demo_extracted =
        (Inr [(''status'', PStr st), (''low_conf_fields'', PList (map PStr low))], s')
    \<and> (st = ''hitl_required'' \<longleftrightarrow> (\<exists>k v. (k, v) \<in> set (confidence demo_ocr) \<and> v < 8 / 10))
    \<and> (st = ''ok'' \<longleftrightarrow> \<not> (\<exists>k v. (k, v) \<in> set (confidence demo_ocr) \<and> v < 8 / 10))
    \<and> low = map fst (filter (\<lambda>(k, v). v < 8 / 10) (confidence demo_ocr)))
   \<and> map fst (filter (\<lambda>(k, v). v < 8 / 10) (confidence demo_ocr)) = [''new_address'']"
proof -
  have l: "map fst (filter (\<lambda>(k, v). v < 8 / 10) (confidence demo_ocr)) = [''new_address'']"
    by (simp add: demo_ocr_def)
  show ?thesis
    by (intro conjI demo_extracted_lookup demo_case1_ocr l
        check_completeness_threshold [OF demo_extracted_lookup demo_case1_ocr])
qed

section \<open>Human overrides\<close>

lemma resolve_twice:
  assumes c: "map_of (cases s) cid = Some c" and w: "map_of (working c) ''new_address'' = Some old"
  shows "resolve_hitl_update_address cid v1 t1 s =
      (Inr [(''message'', PStr ''Address override applied''), (''case_id'', PStr cid),
            (''old_address'', old), (''new_address'', PStr v1),
            (''next_step_hint'', PStr ''You can now continue with match_registry_identity, etc.'')],
       snd (resolve_hitl_update_address cid v1 t1 s))"
    and "resolve_hitl_update_address cid v2 t2 (snd (resolve_hitl_update_address cid v1 t1 s)) =
      (Inr [(''message'', PStr ''Address override applied''), (''case_id'', PStr cid),
            (''old_address'', PStr v1), (''new_address'', PStr v2),
            (''next_step_hint'', PStr ''You can now continue with match_registry_identity, etc.'')],
       s\<lparr>cases := AList.update cid
            (c\<lparr>working := AList.update ''new_address'' (PStr v2) (working c),
               overrides := AList.update ''new_address'' (PStr v2) (overrides c)\<rparr>) (cases s),
         heap := (heap s)(audit c := heap s (audit c) @
            [\<lparr>ts = t1, event = ''resolve_hitl_update_address'',
              details = PDict [(''old_address'', old), (''corrected_address'', PStr v1),
                               (''source'', PStr ''human_officer'')]\<rparr>,
             \<lparr>ts = t2, event = ''resolve_hitl_update_address'',
              details = PDict [(''old_address'', PStr v1), (''corrected_address'', PStr v2),
                               (''source'', PStr ''human_officer'')]\<rparr>])\<rparr>)"
proof -
  let ?c1 = "c\<lparr>working := AList.update ''new_address'' (PStr v1) (working c),
               overrides := AList.update ''new_address'' (PStr v1) (overrides c)\<rparr>"
  let ?s1 = "snd (resolve_hitl_update_address cid v1 t1 s)"
  show "resolve_hitl_update_address cid v1 t1 s =
      (Inr [(''message'', PStr ''Address override applied''), (''case_id'', PStr cid),
            (''old_address'', old), (''new_address'', PStr v1),
            (''next_step_hint'', PStr ''You can now continue with match_registry_identity, etc.'')], ?s1)"
    by (simp add: resolve_eq [OF c w])
  have c1: "map_of (cases ?s1) cid = Some ?c1"
    by (simp add: resolve_eq [OF c w] update_conv')
  have w1: "map_of (working ?c1) ''new_address'' = Some (PStr v1)"
    by (simp add: update_conv')
  show "resolve_hitl_update_address cid v2 t2 ?s1 =
      (Inr [(''message'', PStr ''Address override applied''), (''case_id'', PStr cid),
            (''old_address'', PStr v1), (''new_address'', PStr v2),
            (''next_step_hint'', PStr ''You can now continue with match_registry_identity, etc.'')],
       s\<lparr>cases := AList.update cid
            (c\<lparr>working := AList.update ''new_address'' (PStr v2) (working c),
               overrides := AList.update ''new_address'' (PStr v2) (overrides c)\<rparr>) (cases s),
         heap := (heap s)(audit c := heap s (audit c) @
            [\<lparr>ts = t1, event = ''resolve_hitl_update_address'',
              details = PDict [(''old_address'', old), (''corrected_address'', PStr v1),
                               (''source'', PStr ''human_officer'')]\<rparr>,
             \<lparr>ts = t2, event = ''resolve_hitl_update_address'',
              details = PDict [(''old_address'', PStr v1), (''corrected_address'', PStr v2),
                               (''source'', PStr ''human_officer'')]\<rparr>])\<rparr>)"
    by (subst resolve_eq [OF c1 w1]) (simp add: resolve_eq [OF c w])
qed

lemma demo_case1_working: "map_of (working demo_case1) ''new_address'' = Some (PStr ''Musterstr 12a KL 12345'')"
  by (simp add: demo_case1_def)

text \<open>
  Claim C6. On a case that has a working \<^verbatim>\<open>new_address\<close> (every case has one after
  extraction), two calls of \<^verbatim>\<open>resolve_hitl_update_address\<close> with values \<open>v1\<close> and then
  \<open>v2\<close> both return normally; afterwards the working and the override value of
  \<^verbatim>\<open>new_address\<close> are both \<open>v2\<close>, and the audit list of the case is the one before
  the calls followed by the entry of the first call and then the entry of the second.
\<close>

theorem second_override_wins:
  assumes "map_of (cases s) cid = Some c" and "map_of (working c) ''new_address'' = Some old"
  shows "\<exists>r1 s1 r2 s2 c2.
      resolve_hitl_update_address cid v1 t1 s = (Inr r1, s1)
    \<and> resolve_hitl_update_address cid v2 t2 s1 = (Inr r2, s2)
    \<and> map_of (cases s2) cid = Some c2
    \<and> map_of (working c2) ''new_address'' = Some (PStr v2)
    \<and> map_of (overrides c2) ''new_address'' = Some (PStr v2)
    \<and> audit_of s2 cid = audit_of s cid @
         [\<lparr>ts = t1, event = ''resolve_hitl_update_address'',
           details = PDict [(''old_address'', old), (''corrected_address'', PStr v1),
                            (''source'', PStr ''human_officer'')]\<rparr>,
          \<lparr>ts = t2, event = ''resolve_hitl_update_address'',
           details = PDict [(''old_address'', PStr v1), (''corrected_address'', PStr v2),
                            (''source'', PStr ''human_officer'')]\<rparr>]"
proof -
  let ?c2 = "c\<lparr>working := AList.update ''new_address'' (PStr v2) (working c),
               overrides := AList.update ''new_address'' (PStr v2) (overrides c)\<rparr>"
  let ?e1 = "\<lparr>ts = t1, event = ''resolve_hitl_update_address'',
           details = PDict [(''old_address'', old), (''corrected_address'', PStr v1),
                            (''source'', PStr ''human_officer'')]\<rparr>"
  let ?e2 = "\<lparr>ts = t2, event = ''resolve_hitl_update_address'',
           details = PDict [(''old_address'', PStr v1), (''corrected_address'', PStr v2),
                            (''source'', PStr ''human_officer'')]\<rparr>"
  let ?s2 = "s\<lparr>cases := AList.update cid ?c2 (cases s),
         heap := (heap s)(audit c := heap s (audit c) @ [?e1, ?e2])\<rparr>"
  note two = resolve_twice [OF assms]
  have look: "map_of (cases ?s2) cid = Some ?c2"
    by (simp add: update_conv')
  have wk: "map_of (working ?c2) ''new_address'' = Some (PStr v2)"
    by (simp add: update_conv')
  have ov: "map_of (overrides ?c2) ''new_address'' = Some (PStr v2)"
    by (simp add: update_conv')
  have au: "audit_of ?s2 cid = audit_of s cid @ [?e1, ?e2]"
    using assms(1) by (simp add: audit_of_def update_conv')
  show ?thesis
    by (intro exI conjI) (rule two(1), rule two(2), rule look, rule wk, rule ov, rule au)
qed

theorem second_override_wins_witness:
  "map_of (cases demo_extracted) ''CASE-0001'' = Some demo_case1
   \<and> map_of (working demo_case1) ''new_address'' = Some (PStr ''Musterstr 12a KL 12345'')
   \<and> (\<exists>r1 s1 r2 s2 c2.
      resolve_hitl_update_address ''CASE-0001'' ''Musterweg 1'' ''2025-10-01T09:00:02'' demo_extracted = (Inr r1, s1)
    \<and> resolve_hitl_update_address ''CASE-0001'' corrected_demo ''2025-10-01T09:00:03'' s1 = (Inr r2, s2)
    \<and> map_of (cases s2) ''CASE-0001'' = Some c2
    \<and> map_of (working c2) ''new_address'' = Some (PStr corrected_demo)
    \<and> map_of (overrides c2) ''new_address'' = Some (PStr corrected_demo)
    \<and> audit_of s2 ''CASE-0001'' = audit_of demo_extracted ''CASE-0001'' @
         [\<lparr>ts = ''2025-10-01T09:00:02'', event = ''resolve_hitl_update_address'',
           details = PDict [(''old_address'', PStr ''Musterstr 12a KL 12345''),
                            (''corrected_address'', PStr ''Musterweg 1''),
                            (''source'', PStr ''human_officer'')]\<rparr>,
          \<lparr>ts = ''2025-10-01T09:00:03'', event = ''resolve_hitl_update_address'',
           details = PDict [(''old_address'', PStr ''Musterweg 1''),
                            (''corrected_address'', PStr corrected_demo),
                            (''source'', PStr ''human_officer'')]\<rparr>])"
  by (intro conjI demo_extracted_lookup demo_case1_working
      second_override_wins [OF demo_extracted_lookup demo_case1_working])

text \<open>
  Claim C7. Two calls of \<^verbatim>\<open>resolve_hitl_update_address\<close> with the same value: the
  second leaves every case record, so the working values and the overrides, exactly as the
  first call left them, and each of the two calls appends its own audit entry.
\<close>

theorem repeated_override_noop_two_entries:
  assumes "map_of (cases s) cid = Some c" and "map_of (working c) ''new_address'' = Some old"
  shows "\<exists>r1 s1 r2 s2 c1.
      resolve_hitl_update_address cid v t1 s = (Inr r1, s1)
    \<and> resolve_hitl_update_address cid v t2 s1 = (Inr r2, s2)
    \<and> map_of (cases s1) cid = Some c1
    \<and> map_of (working c1) ''new_address'' = Some (PStr v)
    \<and> map_of (overrides c1) ''new_address'' = Some (PStr v)
    \<and> cases s2 = cases s1
    \<and> audit_of s1 cid = audit_of s cid @
         [\<lparr>ts = t1, event = ''resolve_hitl_update_address'',
           details = PDict [(''old_address'', old), (''corrected_address'', PStr v),
                            (''source'', PStr ''human_officer'')]\<rparr>]
    \<and> audit_of s2 cid = audit_of s1 cid @
         [\<lparr>ts = t2, event = ''resolve_hitl_update_address'',
           details = PDict [(''old_address'', PStr v), (''corrected_address'', PStr v),
                            (''source'', PStr ''human_officer'')]\<rparr>]"
proof -
  let ?c1 = "c\<lparr>working := AList.update ''new_address'' (PStr v) (working c),
               overrides := AList.update ''new_address'' (PStr v) (overrides c)\<rparr>"
  let ?e1 = "\<lparr>ts = t1, event = ''resolve_hitl_update_address'',
           details = PDict [(''old_address'', old), (''corrected_address'', PStr v),
                            (''source'', PStr ''human_officer'')]\<rparr>"
  let ?e2 = "\<lparr>ts = t2, event = ''resolve_hitl_update_address'',
           details = PDict [(''old_address'', PStr v), (''corrected_address'', PStr v),
                            (''source'', PStr ''human_officer'')]\<rparr>"
  let ?s1 = "snd (resolve_hitl_update_address cid v t1 s)"
  let ?s2 = "s\<lparr>cases := AList.update cid ?c1 (cases s),
         heap := (heap s)(audit c := heap s (audit c) @ [?e1, ?e2])\<rparr>"
  note two = resolve_twice [OF assms]
  have s1: "?s1 = s\<lparr>cases := AList.update cid ?c1 (cases s),
         heap := (heap s)(audit c := heap s (audit c) @ [?e1])\<rparr>"
    by (simp add: resolve_eq [OF assms])
  have look: "map_of (cases ?s1) cid = Some ?c1"
    by (simp add: s1 update_conv')
  have wk: "map_of (working ?c1) ''new_address'' = Some (PStr v)"
    by (simp add: update_conv')
  have ov: "map_of (overrides ?c1) ''new_address'' = Some (PStr v)"
    by (simp add: update_conv')
  have same: "cases ?s2 = cases ?s1"
    by (simp add: s1)
  have a1: "audit_of ?s1 cid = audit_of s cid @ [?e1]"
    using assms(1) by (simp add: s1 audit_of_def update_conv')
  have a2: "audit_of ?s2 cid = audit_of ?s1 cid @ [?e2]"
    using assms(1) by (simp add: s1 audit_of_def update_conv')
  show ?thesis
    by (intro exI conjI)
      (rule two(1), rule two(2), rule look, rule wk, rule ov, rule same, rule a1, rule a2)
qed

theorem repeated_override_noop_two_entries_witness:
  "map_of (cases demo_extracted) ''CASE-0001'' = Some demo_case1
   \<and> map_of (working demo_case1) ''new_address'' = Some (PStr ''Musterstr 12a KL 12345'')
   \<and> (\<exists>r1 s1 r2 s2 c1.
      resolve_hitl_update_address ''CASE-0001'' corrected_demo ''2025-10-01T09:00:02'' demo_extracted = (Inr r1, s1)
    \<and> resolve_hitl_update_address ''CASE-0001'' corrected_demo ''2025-10-01T09:00:03'' s1 = (Inr r2, s2)
    \<and> map_of (cases s1) ''CASE-0001'' = Some c1
    \<and> map_of (working c1) ''new_address'' = Some (PStr corrected_demo)
    \<and> map_of (overrides c1) ''new_address'' = Some (PStr corrected_demo)
    \<and> cases s2 = cases s1
    \<and> audit_of s1 ''CASE-0001'' = audit_of demo_extracted ''CASE-0001'' @
         [\<lparr>ts = ''2025-10-01T09:00:02'', event = ''resolve_hitl_update_address'',
           details = PDict [(''old_address'', PStr ''Musterstr 12a KL 12345''),
                            (''corrected_address'', PStr corrected_demo),
                            (''source'', PStr ''human_officer'')]\<rparr>]
    \<and> audit_of s2 ''CASE-0001'' = audit_of s1 ''CASE-0001'' @
         [\<lparr>ts = ''2025-10-01T09:00:03'', event = ''resolve_hitl_update_address'',
           details = PDict [(''old_address'', PStr corrected_demo),
                            (''corrected_address'', PStr corrected_demo),
                            (''source'', PStr ''human_officer'')]\<rparr>])"
  by (intro conjI demo_extracted_lookup demo_case1_working
      repeated_override_noop_two_entries [OF demo_extracted_lookup demo_case1_working])

section \<open>The end-to-end scenario\<close>

lemma demo_payload_keys:
  "map_of DEMO_PAYLOAD ''citizen_name'' = Some (PStr ''John Doe'')"
  "map_of DEMO_PAYLOAD ''citizen_dob'' = Some (PStr ''1998-04-12'')"
  "map_of DEMO_PAYLOAD ''old_address'' = Some (PStr ''Altstrasse 5, 67655 Kaiserslautern'')"
  "map_of DEMO_PAYLOAD ''new_address_raw'' = Some (PStr ''Musterstr 12a KL 12345'')"
  "map_of DEMO_PAYLOAD ''move_in_date_raw'' = Some (PStr ''2025-10-01'')"
  by (simp_all add: DEMO_PAYLOAD_def)

text \<open>
  Claim C3. Take any store and any intake data that has the five keys extraction reads,
  with \<^verbatim>\<open>new_address_raw\<close> equal to \<^verbatim>\<open>Musterstr 12a KL 12345\<close>. Ingesting it and running
  extraction on the new case stores confidence 0.73 for \<^verbatim>\<open>new_address\<close>, which is below
  0.8; \<^verbatim>\<open>check_completeness\<close> then returns status \<^verbatim>\<open>hitl_required\<close> with
  \<^verbatim>\<open>low_conf_fields\<close> equal to \<^verbatim>\<open>["new_address"]\<close>; after
  \<^verbatim>\<open>resolve_hitl_update_address\<close> with a corrected address, the working and the override
  value of \<^verbatim>\<open>new_address\<close> are both the corrected address, and the audit list of the case
  has an entry of that call whose recorded old address is \<^verbatim>\<open>Musterstr 12a KL 12345\<close>.
\<close>

theorem end_to_end_hitl_scenario:
  assumes name: "map_of dat ''citizen_name'' = Some n"
    and dob: "map_of dat ''citizen_dob'' = Some d"
    and old: "map_of dat ''old_address'' = Some ol"
    and new: "map_of dat ''new_address_raw'' = Some (PStr ''Musterstr 12a KL 12345'')"
    and move: "map_of dat ''move_in_date_raw'' = Some mv"
  shows "\<exists>cid s1 r2 s2 c2 oc s3 r4 s4 c4 e.
      ingest_case dat t0 s = (Inr [(''case_id'', PStr cid), (''message'', PStr ''Case created.'')], s1)
    \<and> run_ocr_extract cid t1 s1 = (Inr r2, s2)
    \<and> map_of (cases s2) cid = Some c2 \<and> ocr c2 = Some oc
    \<and> map_of (confidence oc) ''new_address'' = Some (73 / 100) \<and> (73 / 100 :: rat) < 8 / 10
    \<and> check_completeness cid t2 s2 =
        (Inr [(''status'', PStr ''hitl_required''),
              (''low_conf_fields'', PList [PStr ''new_address''])], s3)
    \<and> resolve_hitl_update_address cid v t3 s3 = (Inr r4, s4)
    \<and> map_of (cases s4) cid = Some c4
    \<and> map_of (working c4) ''new_address'' = Some (PStr v)
    \<and> map_of (overrides c4) ''new_address'' = Some (PStr v)
    \<and> e \<in> set (audit_of s4 cid)
    \<and> event e = ''resolve_hitl_update_address''
    \<and> details e = PDict [(''old_address'', PStr ''Musterstr 12a KL 12345''),
                          (''corrected_address'', PStr v),
                          (''source'', PStr ''human_officer'')]"
proof -
  define cid where "cid = next_case_id s"
  define c0 where "c0 = \<lparr>data = dat, ocr = None, status = ''created'', audit = next_addr s,
            overrides = [], working = []\<rparr>"
  define s1 where "s1 = snd (ingest_case dat t0 s)"
  define oc where "oc = \<lparr>ocr_fields = [(''citizen_name'', n), (''citizen_dob'', d), (''old_address'', ol),
                 (''new_address'', PStr ''Musterstr 12a KL 12345''), (''move_in_date'', mv),
                 (''landlord_signature_found'', PBool True)],
               confidence = [(''new_address'', 73 / 100), (''move_in_date'', 9 / 10 :: rat)]\<rparr>"
  define c2 where "c2 = c0\<lparr>ocr := Some oc,
       working := [(''new_address'', PStr ''Musterstr 12a KL 12345''), (''move_in_date'', mv)]\<rparr>"
  define s2 where "s2 = snd (run_ocr_extract cid t1 s1)"
  define s3 where "s3 = snd (check_completeness cid t2 s2)"
  define s4 where "s4 = snd (resolve_hitl_update_address cid v t3 s3)"
  define c4 where "c4 = c2\<lparr>working := AList.update ''new_address'' (PStr v) (working c2),
       overrides := AList.update ''new_address'' (PStr v) (overrides c2)\<rparr>"
  define e where "e = \<lparr>ts = t3, event = ''resolve_hitl_update_address'',
       details = PDict [(''old_address'', PStr ''Musterstr 12a KL 12345''),
                        (''corrected_address'', PStr v), (''source'', PStr ''human_officer'')]\<rparr>"
  have i1: "ingest_case dat t0 s =
      (Inr [(''case_id'', PStr cid), (''message'', PStr ''Case created.'')], s1)"
    by (simp add: s1_def cid_def ingest_case_eq)
  have l1: "map_of (cases s1) cid = Some c0"
    by (simp add: s1_def cid_def c0_def ingest_case_eq update_conv')
  have dat0: "data c0 = dat"
    by (simp add: c0_def)
  note r2 = run_ocr_extract_eq [OF l1, unfolded dat0, OF name dob old new move]
  have i2: "run_ocr_extract cid t1 s1 = (fst (run_ocr_extract cid t1 s1), s2)"
    by (simp add: s2_def)
  have ok2: "fst (run_ocr_extract cid t1 s1) = Inr (projr (fst (run_ocr_extract cid t1 s1)))"
    by (simp add: r2)
  have l2: "map_of (cases s2) cid = Some c2"
    by (simp add: s2_def r2 c2_def oc_def update_conv')
  have o2: "ocr c2 = Some oc"
    by (simp add: c2_def)
  have cf: "map_of (confidence oc) ''new_address'' = Some (73 / 100)"
    by (simp add: oc_def)
  have lt: "(73 / 100 :: rat) < 8 / 10"
    by simp
  have i3: "check_completeness cid t2 s2 =
      (Inr [(''status'', PStr ''hitl_required''),
            (''low_conf_fields'', PList [PStr ''new_address''])], s3)"
    by (simp add: s3_def check_completeness_eq [OF l2 o2]) (simp add: oc_def)
  have l3: "map_of (cases s3) cid = Some c2"
    by (simp add: s3_def check_completeness_eq [OF l2 o2] l2)
  have w3: "map_of (working c2) ''new_address'' = Some (PStr ''Musterstr 12a KL 12345'')"
    by (simp add: c2_def)
  note r4 = resolve_eq [OF l3 w3]
  have i4: "resolve_hitl_update_address cid v t3 s3 =
      (Inr (projr (fst (resolve_hitl_update_address cid v t3 s3))), s4)"
    by (simp add: s4_def r4)
  have l4: "map_of (cases s4) cid = Some c4"
    by (simp add: s4_def r4 c4_def update_conv')
  have w4: "map_of (working c4) ''new_address'' = Some (PStr v)"
    by (simp add: c4_def update_conv')
  have v4: "map_of (overrides c4) ''new_address'' = Some (PStr v)"
    by (simp add: c4_def update_conv')
  have a4: "e \<in> set (audit_of s4 cid)"
    by (simp add: audit_of_def l4) (simp add: s4_def r4 c4_def e_def)
  have ev: "event e = ''resolve_hitl_update_address''"
    by (simp add: e_def)
  have de: "details e = PDict [(''old_address'', PStr ''Musterstr 12a KL 12345''),
                          (''corrected_address'', PStr v),
                          (''source'', PStr ''human_officer'')]"
    by (simp add: e_def)
  have i2': "run_ocr_extract cid t1 s1 = (Inr (projr (fst (run_ocr_extract cid t1 s1))), s2)"
    using i2 ok2 by simp
  show ?thesis
    by (intro exI conjI)
      (rule i1, rule i2', rule l2, rule o2, rule cf, rule lt, rule i3, rule i4, rule l4,
        rule w4, rule v4, rule a4, rule ev, rule de)
qed

text \<open>The scenario on the demo payload, from the empty store, with the corrected address of the specification.\<close>

theorem end_to_end_hitl_scenario_witness:
  "map_of DEMO_PAYLOAD ''citizen_name'' = Some (PStr ''John Doe'')
   \<and> map_of DEMO_PAYLOAD ''citizen_dob'' = Some (PStr ''1998-04-12'')
   \<and> map_of DEMO_PAYLOAD ''old_address'' = Some (PStr ''Altstrasse 5, 67655 Kaiserslautern'')
   \<and> map_of DEMO_PAYLOAD ''new_address_raw'' = Some (PStr ''Musterstr 12a KL 12345'')
   \<and> map_of DEMO_PAYLOAD ''move_in_date_raw'' = Some (PStr ''2025-10-01'')
   \<and> (\<exists>cid s1 r2 s2 c2 oc s3 r4 s4 c4 e.
      ingest_case DEMO_PAYLOAD ''2025-10-01T09:00:00'' init_store =
        (Inr [(''case_id'', PStr cid), (''message'', PStr ''Case created.'')], s1)
    \<and> run_ocr_extract cid ''2025-10-01T09:00:01'' s1 = (Inr r2, s2)
    \<and> map_of (cases s2) cid = Some c2 \<and> ocr c2 = Some oc
    \<and> map_of (confidence oc) ''new_address'' = Some (73 / 100) \<and> (73 / 100 :: rat) < 8 / 10
    \<and> check_completeness cid ''2025-10-01T09:00:02'' s2 =
        (Inr [(''status'', PStr ''hitl_required''),
              (''low_conf_fields'', PList [PStr ''new_address''])], s3)
    \<and> resolve_hitl_update_address cid corrected_demo ''2025-10-01T09:00:03'' s3 = (Inr r4, s4)
    \<and> map_of (cases s4) cid = Some c4
    \<and> map_of (working c4) ''new_address'' = Some (PStr corrected_demo)
    \<and> map_of (overrides c4) ''new_address'' = Some (PStr corrected_demo)
    \<and> e \<in> set (audit_of s4 cid)
    \<and> event e = ''resolve_hitl_update_address''
    \<and> details e = PDict [(''old_address'', PStr ''Musterstr 12a KL 12345''),
                          (''corrected_address'', PStr corrected_demo),
                          (''source'', PStr ''human_officer'')])"
  by (intro conjI demo_payload_keys end_to_end_hitl_scenario [OF demo_payload_keys])

section \<open>Extraction after an override\<close>

lemma demo_overridden_eq:
  "resolve_hitl_update_address ''CASE-0001'' corrected_demo ''2025-10-01T09:00:02'' demo_extracted =
    (Inr [(''message'', PStr ''Address override applied''), (''case_id'', PStr ''CASE-0001''),
          (''old_address'', PStr ''Musterstr 12a KL 12345''), (''new_address'', PStr corrected_demo),
          (''next_step_hint'', PStr ''You can now continue with match_registry_identity, etc.'')],
     demo_overridden)"
  by (simp add: demo_overridden_def resolve_eq [OF demo_extracted_lookup demo_case1_working])

lemma demo_overridden_lookup:
  "map_of (cases demo_overridden) ''CASE-0001'' =
     Some (demo_case1\<lparr>working := [(''new_address'', PStr corrected_demo), (''move_in_date'', PStr ''2025-10-01'')],
                      overrides := [(''new_address'', PStr corrected_demo)]\<rparr>)"
  by (simp add: demo_overridden_def resolve_eq [OF demo_extracted_lookup demo_case1_working] update_conv')
    (simp add: demo_case1_def demo_case0_def)

text \<open>
  Claim C1 asks that the working value of a field be its override whenever there is one,
  also after \<^verbatim>\<open>run_ocr_extract\<close> runs again on a case that holds overrides; the module's
  own comment on the \<^verbatim>\<open>working\<close> key reads "current working data (with overrides
  applied)". In the demo scenario the rule holds after the officer's correction. A second
  \<^verbatim>\<open>run_ocr_extract\<close> then returns normally and replaces \<^verbatim>\<open>working\<close> by the extracted
  values without looking at \<^verbatim>\<open>overrides\<close>: the override of \<^verbatim>\<open>new_address\<close> is still the
  corrected address while the working value is the raw one again.
\<close>

theorem reextraction_drops_override:
  "map_option (\<lambda>c. (working c, overrides c)) (map_of (cases demo_overridden) ''CASE-0001'') =
      Some ([(''new_address'', PStr corrected_demo), (''move_in_date'', PStr ''2025-10-01'')],
            [(''new_address'', PStr corrected_demo)])
   \<and> (case fst (run_ocr_extract ''CASE-0001'' ''2025-10-01T09:00:03'' demo_overridden) of
         Inl e \<Rightarrow> False | Inr r \<Rightarrow> True)
   \<and> map_option (\<lambda>c. (working c, overrides c)) (map_of (cases demo_reextracted) ''CASE-0001'') =
      Some ([(''new_address'', PStr ''Musterstr 12a KL 12345''), (''move_in_date'', PStr ''2025-10-01'')],
            [(''new_address'', PStr corrected_demo)])
   \<and> PStr ''Musterstr 12a KL 12345'' \<noteq> PStr corrected_demo"
proof -
  let ?c = "demo_case1\<lparr>working := [(''new_address'', PStr corrected_demo), (''move_in_date'', PStr ''2025-10-01'')],
                      overrides := [(''new_address'', PStr corrected_demo)]\<rparr>"
  have d: "data ?c = DEMO_PAYLOAD"
    by (simp add: demo_case1_def demo_case0_def)
  note r = run_ocr_extract_eq [OF demo_overridden_lookup, unfolded d, OF demo_payload_keys]
  have a: "map_option (\<lambda>c. (working c, overrides c)) (map_of (cases demo_overridden) ''CASE-0001'') =
      Some ([(''new_address'', PStr corrected_demo), (''move_in_date'', PStr ''2025-10-01'')],
            [(''new_address'', PStr corrected_demo)])"
    by (simp add: demo_overridden_lookup)
  have b: "(case fst (run_ocr_extract ''CASE-0001'' ''2025-10-01T09:00:03'' demo_overridden) of
         Inl e \<Rightarrow> False | Inr r \<Rightarrow> True)"
    by (simp add: r)
  have c: "map_option (\<lambda>c. (working c, overrides c)) (map_of (cases demo_reextracted) ''CASE-0001'') =
      Some ([(''new_address'', PStr ''Musterstr 12a KL 12345''), (''move_in_date'', PStr ''2025-10-01'')],
            [(''new_address'', PStr corrected_demo)])"
    by (simp add: demo_reextracted_def r update_conv')
  have e: "PStr ''Musterstr 12a KL 12345'' \<noteq> PStr corrected_demo"
    by (simp add: corrected_demo_def)
  from a b c e show ?thesis by (intro conjI)
qed

text \<open>
  What does hold of the overlay rule: the first extraction of a case without overrides
  establishes it, an override keeps it, and the steps that only audit do not touch the
  case records. The second extraction of the demo scenario breaks it.
\<close>

lemma audit_then_return_cases: "cases (snd (audit_then_return cid now ev det r s)) = cases s"
  by (simp add: audit_then_return_def do_audit_def split: option.splits)

lemma audit_only_steps_keep_cases:
  "cases (snd (check_completeness cid now s)) = cases s"
  "cases (snd (match_registry_identity cid now s)) = cases s"
  "cases (snd (validate_landlord_confirmation cid now s)) = cases s"
  "cases (snd (canonicalize_address cid now s)) = cases s"
  "cases (snd (check_business_rules cid now s)) = cases s"
  "cases (snd (update_registry cid now s)) = cases s"
  "cases (snd (generate_certificate cid now s)) = cases s"
  "cases (snd (notify_citizen cid now s)) = cases s"
  "cases (snd (close_case_and_audit cid now s)) = cases s"
  by (simp_all add: check_completeness_def match_registry_identity_def
      validate_landlord_confirmation_def canonicalize_address_def check_business_rules_def
      update_registry_def generate_certificate_def notify_citizen_def close_case_and_audit_def
      audit_then_return_cases Let_def split: option.splits sum.splits)

lemma run_ocr_extract_establishes_overlay:
  assumes "map_of (cases s) cid = Some c"
    and "map_of (data c) ''citizen_name'' = Some n" "map_of (data c) ''citizen_dob'' = Some d"
    "map_of (data c) ''old_address'' = Some ol" "map_of (data c) ''new_address_raw'' = Some nw"
    "map_of (data c) ''move_in_date_raw'' = Some mv"
    and "overrides c = []"
  shows "\<exists>c'. map_of (cases (snd (run_ocr_extract cid now s))) cid = Some c' \<and> overlay_holds c'"
  by (simp add: run_ocr_extract_eq [OF assms(1-6)] update_conv' overlay_holds_def assms(7))

lemma resolve_preserves_overlay:
  assumes "map_of (cases s) cid = Some c" and "map_of (working c) ''new_address'' = Some old"
    and "overlay_holds c"
  shows "\<exists>c'. map_of (cases (snd (resolve_hitl_update_address cid v now s))) cid = Some c'
           \<and> overlay_holds c'"
proof -
  let ?c' = "c\<lparr>working := AList.update ''new_address'' (PStr v) (working c),
               overrides := AList.update ''new_address'' (PStr v) (overrides c)\<rparr>"
  have look: "map_of (cases (snd (resolve_hitl_update_address cid v now s))) cid = Some ?c'"
    by (simp add: resolve_eq [OF assms(1,2)] update_conv')
  have "overlay_holds ?c'"
    unfolding overlay_holds_def
  proof
    fix f
    assume "f \<in> set (map fst (working ?c'))"
    then have fk: "f = ''new_address'' \<or> f \<in> set (map fst (working c))"
      by (simp add: update_keys split: if_splits)
    show "map_of (working ?c') f =
      (case map_of (overrides ?c') f of
         Some v \<Rightarrow> Some v
       | None \<Rightarrow> (case ocr ?c' of None \<Rightarrow> None | Some oc \<Rightarrow> map_of (ocr_fields oc) f))"
    proof (cases "f = ''new_address''")
      case True
      then show ?thesis by (simp add: update_conv')
    next
      case False
      with fk have "f \<in> set (map fst (working c))" by simp
      then have "map_of (working c) f =
        (case map_of (overrides c) f of
           Some v \<Rightarrow> Some v
         | None \<Rightarrow> (case ocr c of None \<Rightarrow> None | Some oc \<Rightarrow> map_of (ocr_fields oc) f))"
        by (rule bspec [OF assms(3) [unfolded overlay_holds_def]])
      with False show ?thesis by (simp add: update_conv' split: option.splits)
    qed
  qed
  with look show ?thesis by (intro exI conjI)
qed

lemma reextraction_breaks_overlay:
  "\<exists>c. map_of (cases demo_overridden) ''CASE-0001'' = Some c \<and> overlay_holds c"
  "\<exists>c. map_of (cases demo_reextracted) ''CASE-0001'' = Some c \<and> \<not> overlay_holds c"
proof -
  let ?c = "demo_case1\<lparr>working := [(''new_address'', PStr corrected_demo), (''move_in_date'', PStr ''2025-10-01'')],
                      overrides := [(''new_address'', PStr corrected_demo)]\<rparr>"
  have d: "data ?c = DEMO_PAYLOAD"
    by (simp add: demo_case1_def demo_case0_def)
  note r = run_ocr_extract_eq [OF demo_overridden_lookup, unfolded d, OF demo_payload_keys]
  show "\<exists>c. map_of (cases demo_overridden) ''CASE-0001'' = Some c \<and> overlay_holds c"
    by (simp add: demo_overridden_lookup overlay_holds_def demo_case1_def demo_ocr_def)
  show "\<exists>c. map_of (cases demo_reextracted) ''CASE-0001'' = Some c \<and> \<not> overlay_holds c"
    by (simp add: demo_reextracted_def r update_conv' overlay_holds_def corrected_demo_def)
qed

end
